theory Spec2Isabelle
  imports Main
begin

section \<open>JavaScript values\<close>

text \<open>
  The widget (\<^verbatim>\<open>src/static/bookbot-widget.js\<close>) handles values decoded from JSON and the
  \<^verbatim>\<open>undefined\<close> that reading a missing property gives. Numbers are modelled as integers:
  the pixel quantities and stock counts the widget handles; \<^verbatim>\<open>NaN\<close>, infinities and
  fractions are outside the model. Strings are modelled by their UTF-8 bytes, so the
  non-ASCII literals of the source appear as byte lists. An object is the list of its own
  properties; a property is looked up with \<open>map_of\<close>.
\<close>

datatype jsval =
    JUndefined
  | JNull
  | JBool bool
  | JNum int
  | JStr string
  | JArr "jsval list"
  | JObj "(string \<times> jsval) list"

datatype js_error = TypeError

definition bindE :: "js_error + 'a \<Rightarrow> ('a \<Rightarrow> js_error + 'b) \<Rightarrow> js_error + 'b" where
  "bindE m f = (case m of Inl e \<Rightarrow> Inl e | Inr a \<Rightarrow> f a)"

fun mapE :: "('a \<Rightarrow> js_error + 'b) \<Rightarrow> 'a list \<Rightarrow> js_error + 'b list" where
  "mapE f [] = Inr []"
| "mapE f (a # as) = bindE (f a) (\<lambda>b. bindE (mapE f as) (\<lambda>bs. Inr (b # bs)))"

text \<open>Truthiness, as \<^verbatim>\<open>if (v)\<close>, \<^verbatim>\<open>v && e\<close>, \<^verbatim>\<open>v || e\<close> and \<^verbatim>\<open>v ? a : b\<close> test it.\<close>

fun truthy :: "jsval \<Rightarrow> bool" where
  "truthy JUndefined = False"
| "truthy JNull = False"
| "truthy (JBool b) = b"
| "truthy (JNum n) = (n \<noteq> 0)"
| "truthy (JStr s) = (s \<noteq> [])"
| "truthy (JArr _) = True"
| "truthy (JObj _) = True"

definition orElse :: "jsval \<Rightarrow> jsval \<Rightarrow> jsval" where
  \<comment> \<open>\<^verbatim>\<open>a || b\<close>\<close>
  "orElse a b = (if truthy a then a else b)"

text \<open>
  Reading a property \<^verbatim>\<open>v.k\<close>. On \<^verbatim>\<open>null\<close> and \<^verbatim>\<open>undefined\<close> it throws; on an object it
  gives the own property or \<^verbatim>\<open>undefined\<close>; on a primitive or an array it gives
  \<^verbatim>\<open>undefined\<close> for every name the widget reads (none of them is inherited from a
  prototype).
\<close>

fun getProp :: "jsval \<Rightarrow> string \<Rightarrow> jsval" where
  "getProp (JObj kvs) k = (case map_of kvs k of Some v \<Rightarrow> v | None \<Rightarrow> JUndefined)"
| "getProp _ k = JUndefined"

fun get :: "jsval \<Rightarrow> string \<Rightarrow> js_error + jsval" where
  "get JUndefined k = Inl TypeError"
| "get JNull k = Inl TypeError"
| "get v k = Inr (getProp v k)"

fun isArray :: "jsval \<Rightarrow> bool" where
  "isArray (JArr _) = True"
| "isArray _ = False"

subsection \<open>Conversion to string\<close>

fun digits :: "nat \<Rightarrow> string" where
  "digits n = (if n < 10 then [''0123456789'' ! n]
               else digits (n div 10) @ [''0123456789'' ! (n mod 10)])"

definition numToString :: "int \<Rightarrow> string" where
  "numToString n = (if n < 0 then ''-'' @ digits (nat (- n)) else digits (nat n))"

definition joinStr :: "string \<Rightarrow> string list \<Rightarrow> string" where
  \<comment> \<open>\<^verbatim>\<open>xs.join(sep)\<close> on an array of strings\<close>
  "joinStr sep xs = (case xs of [] \<Rightarrow> [] | y # ys \<Rightarrow> y @ concat (map (\<lambda>z. sep @ z) ys))"

text \<open>
  \<^verbatim>\<open>String(v)\<close>, which a template literal applies as well. An array joins the strings of
  its elements with commas, \<^verbatim>\<open>null\<close> and \<^verbatim>\<open>undefined\<close> elements giving the empty string.
  A decoded object prints as \<^verbatim>\<open>[object Object]\<close>, unless it has an own property
  \<^verbatim>\<open>toString\<close>: a decoded value is never callable, and the conversion throws.
\<close>

fun toStr :: "jsval \<Rightarrow> js_error + string"
  and elemStrs :: "jsval list \<Rightarrow> js_error + string list" where
  "toStr JUndefined = Inr ''undefined''"
| "toStr JNull = Inr ''null''"
| "toStr (JBool b) = Inr (if b then ''true'' else ''false'')"
| "toStr (JNum n) = Inr (numToString n)"
| "toStr (JStr s) = Inr s"
| "toStr (JArr vs) = bindE (elemStrs vs) (\<lambda>ss. Inr (joinStr '','' ss))"
| "toStr (JObj kvs) =
     (if map_of kvs ''toString'' = None then Inr ''[object Object]'' else Inl TypeError)"
| "elemStrs [] = Inr []"
| "elemStrs (v # vs) =
     bindE (if v = JUndefined \<or> v = JNull then Inr [] else toStr v)
       (\<lambda>s. bindE (elemStrs vs) (\<lambda>ss. Inr (s # ss)))"

subsection \<open>escapeHtml\<close>

text \<open>
  \<^verbatim>\<open>const escapeHtml = s => String(s).replace(/[&<>"']/g, m => ({...}[m]))\<close>
\<close>

definition escapeChar :: "char \<Rightarrow> string" where
  "escapeChar c =
     (if c = CHR ''&'' then ''&amp;''
      else if c = CHR ''<'' then ''&lt;''
      else if c = CHR ''>'' then ''&gt;''
      else if c = CHR 0x22 then ''&quot;''
      else if c = CHR 0x27 then ''&#39;''
      else [c])"

definition escapeText :: "string \<Rightarrow> string" where
  "escapeText s = concat (map escapeChar s)"

definition escapeHtml :: "jsval \<Rightarrow> js_error + string" where
  "escapeHtml v = bindE (toStr v) (\<lambda>s. Inr (escapeText s))"

section \<open>Render dispatch\<close>

text \<open>
  \<^verbatim>\<open>renderBot(data)\<close> builds the markup of one bot row and hands it to \<^verbatim>\<open>appendBot\<close>.
  The markup is computed first, so an exception thrown while it is built leaves the
  transcript untouched. \<open>renderBotHtml\<close> is that markup, or the exception. The literals
  \<open>dash\<close>, \<open>outOfStock\<close>, \<open>followLabel\<close>, \<open>stockOpen\<close>, \<open>bulletOpen\<close>, \<open>qtyOpen\<close> and
  \<open>fallbackMsg\<close> are the source's template fragments, non-ASCII characters as UTF-8.
\<close>

definition dash :: string where
  \<comment> \<open>space, U+2014, space\<close>
  "dash = '' '' @ [CHR 0xE2, CHR 0x80, CHR 0x94] @ '' ''"

definition outOfStock :: string where
  "outOfStock = '' <span style='' @ [CHR 0x22] @ ''color:#b00'' @ [CHR 0x22] @ ''>(ngo''
     @ [CHR 0xC3, CHR 0xA0] @ ''i kho)</span>''"

definition followLabel :: string where
  "followLabel = ''<div style='' @ [CHR 0x22] @ ''margin-top:6px'' @ [CHR 0x22] @ ''><b>H''
     @ [CHR 0xE1, CHR 0xBB, CHR 0x8F] @ ''i th'' @ [CHR 0xC3, CHR 0xAA] @ ''m:</b> ''"

definition stockOpen :: string where
  "stockOpen = '' <span style='' @ [CHR 0x22] @ ''color:#555'' @ [CHR 0x22] @ ''>(c''
     @ [CHR 0xC3, CHR 0xB2] @ ''n ''"

definition bulletOpen :: string where
  \<comment> \<open>U+2022, space, the opening bold tag\<close>
  "bulletOpen = [CHR 0xE2, CHR 0x80, CHR 0xA2] @ '' <b>''"

definition qtyOpen :: string where
  "qtyOpen = '' (c'' @ [CHR 0xC3, CHR 0xB2] @ ''n ''"

definition fallbackMsg :: string where
  "fallbackMsg = ''M'' @ [CHR 0xC3, CHR 0xAC] @ ''nh ch'' @ [CHR 0xC6, CHR 0xB0] @ ''a r''
     @ [CHR 0xC3, CHR 0xB5] @ '' nhu c'' @ [CHR 0xE1, CHR 0xBA, CHR 0xA7] @ ''u, b''
     @ [CHR 0xE1, CHR 0xBA, CHR 0xA1] @ ''n m'' @ [CHR 0xC3, CHR 0xB4] @ '' t''
     @ [CHR 0xE1, CHR 0xBA, CHR 0xA3] @ '' chi ti'' @ [CHR 0xE1, CHR 0xBA, CHR 0xBF] @ ''t h''
     @ [CHR 0xC6, CHR 0xA1] @ ''n nh'' @ [CHR 0xC3, CHR 0xA9] @ ''!''"

definition mapArr :: "jsval \<Rightarrow> (jsval \<Rightarrow> js_error + string) \<Rightarrow> js_error + string list" where
  \<comment> \<open>\<^verbatim>\<open>v.map(f)\<close>: only an array has \<^verbatim>\<open>map\<close>; on any other value the call throws\<close>
  "mapArr v f = (case v of JArr xs \<Rightarrow> mapE f xs | _ \<Rightarrow> Inl TypeError)"

text \<open>Shape 1: one list item per recommendation, then the follow-up block.\<close>

definition recItem :: "jsval \<Rightarrow> js_error + string" where
  "recItem x =
     bindE (get x ''title'') (\<lambda>title. bindE (escapeHtml title) (\<lambda>t.
     bindE (get x ''author'') (\<lambda>author. bindE (escapeHtml (orElse author (JStr ''N/A''))) (\<lambda>a.
     bindE (get x ''reason'') (\<lambda>reason. bindE (escapeHtml (orElse reason (JStr []))) (\<lambda>r.
     bindE (get x ''in_stock'') (\<lambda>in_stock.
       Inr (''<li><b>'' @ t @ ''</b>'' @ dash @ a @ ''<br><i>'' @ r @ ''</i>''
            @ (if in_stock = JBool False then outOfStock else []) @ ''</li>''))))))))"

definition followUp :: "jsval \<Rightarrow> js_error + string" where
  \<comment> \<open>line 329, \<^verbatim>\<open>const follow = data.follow_up ? ... : ""\<close>\<close>
  "followUp data =
     (if truthy (getProp data ''follow_up'')
      then bindE (escapeHtml (getProp data ''follow_up''))
             (\<lambda>f. Inr (followLabel @ f @ ''</div>''))
      else Inr [])"

definition renderRecommendations :: "jsval \<Rightarrow> js_error + string" where
  "renderRecommendations data =
     bindE (mapArr (getProp data ''recommendations'') recItem) (\<lambda>items.
     let li = joinStr [] items in
     bindE (followUp data) (\<lambda>follow.
       Inr (''<ul>'' @ li @ ''</ul>'' @ follow)))"

text \<open>Shape 2: the summary line, the stock suffix for a numeric \<^verbatim>\<open>qty\<close>, the bullets.\<close>

definition renderSummary :: "jsval \<Rightarrow> js_error + string" where
  "renderSummary data =
     (let s = orElse (getProp data ''summary'') (JObj []) in
      bindE (mapArr (orElse (getProp s ''bullets'') (JArr []))
               (\<lambda>x. bindE (escapeHtml x) (\<lambda>e. Inr (''<li>'' @ e @ ''</li>'')))) (\<lambda>items.
      let bullets = joinStr [] items;
          stock = (case getProp s ''qty'' of
                     JNum n \<Rightarrow> stockOpen @ numToString n @ '')</span>''
                   | _ \<Rightarrow> []) in
      bindE (escapeHtml (orElse (getProp s ''title'') (JStr ''N/A''))) (\<lambda>t.
      bindE (escapeHtml (orElse (getProp s ''author'') (JStr ''N/A''))) (\<lambda>a.
        Inr ([CHR 0x0A] @ ''      <div>'' @ [CHR 0x0A] @ ''        <div><b>'' @ t @ ''</b>''
             @ dash @ a @ stock @ ''</div>'' @ [CHR 0x0A] @ ''        <ul style='' @ [CHR 0x22]
             @ ''margin:6px 0 0 18px'' @ [CHR 0x22] @ ''>'' @ bullets @ ''</ul>'' @ [CHR 0x0A]
             @ ''      </div>'' @ [CHR 0x0A] @ ''    '')))))"

text \<open>
  Shape 3: the answer, then one line per book. \<^verbatim>\<open>b.qty\<close> is interpolated as it is,
  through \<^verbatim>\<open>String\<close> only.
\<close>

definition bookLine :: "jsval \<Rightarrow> js_error + string" where
  "bookLine b =
     bindE (get b ''title'') (\<lambda>title. bindE (escapeHtml title) (\<lambda>t.
     bindE (get b ''author'') (\<lambda>author. bindE (escapeHtml author) (\<lambda>a.
     bindE (get b ''qty'') (\<lambda>qty. bindE (toStr qty) (\<lambda>q.
       Inr (bulletOpen @ t @ ''</b>'' @ dash @ a @ qtyOpen @ q @ '')'')))))))"

definition renderAnswer :: "jsval \<Rightarrow> js_error + string" where
  "renderAnswer data =
     bindE (mapArr (orElse (getProp data ''books'') (JArr [])) bookLine) (\<lambda>ls.
     let books = joinStr ''<br/>'' ls in
     bindE (escapeHtml (getProp data ''answer'')) (\<lambda>a.
       Inr (a @ (if books \<noteq> []
                 then ''<div style='' @ [CHR 0x27] @ ''margin-top:6px'' @ [CHR 0x27] @ ''>''
                      @ books @ ''</div>''
                 else []))))"

text \<open>Shape 4: the \<^verbatim>\<open>raw\<close> field when truthy, else the fixed message.\<close>

definition renderFallback :: "jsval \<Rightarrow> js_error + string" where
  "renderFallback data =
     (if truthy data \<and> truthy (getProp data ''raw'')
      then escapeHtml (getProp data ''raw'')
      else Inr fallbackMsg)"

text \<open>
  The dispatch. Each test is guarded by \<^verbatim>\<open>data &&\<close>, so \<^verbatim>\<open>data.k\<close> is only read on a
  truthy \<^verbatim>\<open>data\<close>, where it cannot throw and equals \<open>getProp data k\<close>.
\<close>

definition renderBotHtml :: "jsval \<Rightarrow> js_error + string" where
  "renderBotHtml data =
     (if truthy data \<and> isArray (getProp data ''recommendations'') then renderRecommendations data
      else if truthy data \<and> truthy (getProp data ''summary'') then renderSummary data
      else if truthy data \<and> truthy (getProp data ''answer'') then renderAnswer data
      else renderFallback data)"

section \<open>Persisted panel state\<close>

text \<open>
  \<^verbatim>\<open>const state = {open: false, x: null, y: null, w: 360, h: 520}\<close>, with the field types
  of the specification: \<^verbatim>\<open>x\<close> and \<^verbatim>\<open>y\<close> a number or \<^verbatim>\<open>null\<close>, \<^verbatim>\<open>w\<close> and \<^verbatim>\<open>h\<close> numbers.
\<close>

record PanelState =
  st_open :: bool
  st_x :: "int option"
  st_y :: "int option"
  st_w :: int
  st_h :: int

text \<open>
  The slot \<^verbatim>\<open>bookbot@ui-state.nomax.v3\<close> of \<^verbatim>\<open>localStorage\<close> is modelled by what
  \<^verbatim>\<open>JSON.parse\<close> makes of its text: there is no item (or an empty one), the text does
  not parse, or it parses to a value of which \<^verbatim>\<open>Object.assign\<close> copies the own
  properties. A \<open>StoredRecord\<close> holds the five properties that matter, each present or
  not, with values of the field's type (a decoded value that is no object, or a falsy
  one, has none of them). \<^verbatim>\<open>JSON.stringify\<close> followed by \<^verbatim>\<open>JSON.parse\<close> is the identity on
  such a record. The storage may refuse access: \<open>getThrows\<close> and \<open>setThrows\<close> say that
  \<^verbatim>\<open>getItem\<close> and \<^verbatim>\<open>setItem\<close> throw.
\<close>

record StoredRecord =
  r_open :: "bool option"
  r_x :: "int option option"
  r_y :: "int option option"
  r_w :: "int option"
  r_h :: "int option"

datatype storedItem = NoItem | Undecodable | Decoded StoredRecord

record localStorage =
  item :: storedItem
  getThrows :: bool
  setThrows :: bool

definition defaults :: PanelState where
  "defaults = \<lparr>st_open = False, st_x = None, st_y = None, st_w = 360, st_h = 520\<rparr>"

definition assign :: "PanelState \<Rightarrow> StoredRecord \<Rightarrow> PanelState" where
  \<comment> \<open>\<^verbatim>\<open>Object.assign(state, record)\<close>: every property present overwrites the field\<close>
  "assign st r =
     \<lparr>st_open = (case r_open r of Some b \<Rightarrow> b | None \<Rightarrow> st_open st),
      st_x = (case r_x r of Some v \<Rightarrow> v | None \<Rightarrow> st_x st),
      st_y = (case r_y r of Some v \<Rightarrow> v | None \<Rightarrow> st_y st),
      st_w = (case r_w r of Some v \<Rightarrow> v | None \<Rightarrow> st_w st),
      st_h = (case r_h r of Some v \<Rightarrow> v | None \<Rightarrow> st_h st)\<rparr>"

definition loadState :: "localStorage \<Rightarrow> PanelState" where
  \<comment> \<open>lines 79-83: the defaults, overwritten inside \<^verbatim>\<open>try\<close>; any exception is swallowed\<close>
  "loadState ls =
     (if getThrows ls then defaults
      else case item ls of
             NoItem \<Rightarrow> defaults
           | Undecodable \<Rightarrow> defaults
           | Decoded r \<Rightarrow> assign defaults r)"

definition toRecord :: "PanelState \<Rightarrow> StoredRecord" where
  \<comment> \<open>what \<^verbatim>\<open>JSON.stringify(state)\<close> decodes to: all five properties\<close>
  "toRecord st =
     \<lparr>r_open = Some (st_open st), r_x = Some (st_x st), r_y = Some (st_y st),
      r_w = Some (st_w st), r_h = Some (st_h st)\<rparr>"

definition setItem :: "PanelState \<Rightarrow> localStorage \<Rightarrow> localStorage" where
  \<comment> \<open>the body of \<^verbatim>\<open>saveState\<close> on the storage: a refused write changes nothing\<close>
  "setItem st ls = (if setThrows ls then ls else ls\<lparr>item := Decoded (toRecord st)\<rparr>)"

section \<open>The widget\<close>

text \<open>
  The panel's inline style. A length the style parser refuses (a negative width) leaves
  the property unset, and the stylesheet applies: 360 by 520 pixels, anchored 22 pixels
  from the right and bottom edges, or the whole viewport at the origin when the
  viewport is at most 640 pixels wide.
\<close>

datatype display = DisplayNone | DisplayFlex

record panelStyle =
  s_left :: "int option"
  s_top :: "int option"
  s_rightAuto :: bool
  s_bottomAuto :: bool
  s_width :: "int option"
  s_height :: "int option"
  s_display :: display

record rect =
  rc_left :: int
  rc_top :: int
  rc_width :: int
  rc_height :: int

definition cssLength :: "int \<Rightarrow> int option" where
  \<comment> \<open>assigning \<^verbatim>\<open>v + "px"\<close> to \<^verbatim>\<open>width\<close> or \<^verbatim>\<open>height\<close>\<close>
  "cssLength v = (if v < 0 then None else Some v)"

definition boundingRect :: "int \<Rightarrow> int \<Rightarrow> panelStyle \<Rightarrow> rect" where
  \<comment> \<open>\<^verbatim>\<open>panel.getBoundingClientRect()\<close> in a viewport \<open>vw\<close> by \<open>vh\<close>; an element that is
      not displayed has the zero rectangle\<close>
  "boundingRect vw vh p =
     (if s_display p = DisplayNone then \<lparr>rc_left = 0, rc_top = 0, rc_width = 0, rc_height = 0\<rparr>
      else
        let bw = (case s_width p of Some v \<Rightarrow> v | None \<Rightarrow> if vw \<le> 640 then vw else 360);
            bh = (case s_height p of Some v \<Rightarrow> v | None \<Rightarrow> if vw \<le> 640 then vh else 520)
        in \<lparr>rc_left = (case s_left p of Some v \<Rightarrow> v
                      | None \<Rightarrow> if vw \<le> 640 then 0 else vw - 22 - bw),
            rc_top = (case s_top p of Some v \<Rightarrow> v
                     | None \<Rightarrow> if vw \<le> 640 then 0 else vh - 22 - bh),
            rc_width = bw, rc_height = bh\<rparr>)"

text \<open>A transcript row; \<open>rid\<close> is the identity of the DOM element.\<close>

record row =
  rid :: nat
  className :: string
  innerHTML :: string

record dragSession =
  dragging :: bool
  d_sx :: int
  d_sy :: int
  d_ox :: int
  d_oy :: int

record resizeSession =
  resizing :: bool
  z_sw :: int
  z_sh :: int
  z_sx :: int
  z_sy :: int

text \<open>
  The variables of the module's closure and the part of the browser they refer to.
  \<open>panel = None\<close> is the variable \<^verbatim>\<open>panel\<close> before \<^verbatim>\<open>makePanel\<close>; \<open>rows\<close>, \<open>scrollTop\<close>,
  \<open>inputValue\<close>, \<open>sendDisabled\<close> and \<open>inputFocused\<close> are the elements \<^verbatim>\<open>log\<close>, \<^verbatim>\<open>input\<close>
  and \<^verbatim>\<open>sendBtn\<close> that \<^verbatim>\<open>makePanel\<close> creates with it. \<open>inputFocused\<close> records the last
  \<^verbatim>\<open>input.focus()\<close>. \<open>frames\<close> counts the queued \<^verbatim>\<open>requestAnimationFrame\<close> callbacks,
  all of which are \<^verbatim>\<open>log.scrollTop = log.scrollHeight\<close>. The layout engine is a
  parameter: \<open>rowsHeight\<close> gives the scroll height of the log for its rows,
  \<open>clientHeight\<close> its visible height; \<open>innerWidth\<close> and \<open>innerHeight\<close> are the viewport.
\<close>

record widget =
  state :: PanelState
  storage :: localStorage
  panel :: "panelStyle option"
  fab :: "display option"
  rows :: "row list"
  scrollTop :: int
  stickBottom :: bool
  inputValue :: string
  sendDisabled :: bool
  inputFocused :: bool
  nextId :: nat
  frames :: nat
  drag :: dragSession
  resize :: resizeSession
  innerWidth :: int
  innerHeight :: int
  clientHeight :: int
  rowsHeight :: "row list \<Rightarrow> int"

definition boot :: "localStorage \<Rightarrow> int \<Rightarrow> int \<Rightarrow> int \<Rightarrow> (row list \<Rightarrow> int) \<Rightarrow> widget" where
  \<comment> \<open>lines 79-86: the closure before \<^verbatim>\<open>init()\<close>\<close>
  "boot ls vw vh ch lay =
     \<lparr>state = loadState ls, storage = ls, panel = None, fab = None, rows = [],
      scrollTop = 0, stickBottom = True, inputValue = [], sendDisabled = False,
      inputFocused = False, nextId = 0, frames = 0,
      drag = \<lparr>dragging = False, d_sx = 0, d_sy = 0, d_ox = 0, d_oy = 0\<rparr>,
      resize = \<lparr>resizing = False, z_sw = 0, z_sh = 0, z_sx = 0, z_sy = 0\<rparr>,
      innerWidth = vw, innerHeight = vh, clientHeight = ch, rowsHeight = lay\<rparr>"

definition saveState :: "widget \<Rightarrow> widget" where
  "saveState wd = wd\<lparr>storage := setItem (state wd) (storage wd)\<rparr>"

subsection \<open>Transcript\<close>

definition scrollHeight :: "widget \<Rightarrow> int" where
  "scrollHeight wd = rowsHeight wd (rows wd)"

definition scrollToBottom :: "widget \<Rightarrow> widget" where
  \<comment> \<open>\<^verbatim>\<open>log.scrollTop = log.scrollHeight\<close>: the browser clamps to the last position\<close>
  "scrollToBottom wd = wd\<lparr>scrollTop := max 0 (scrollHeight wd - clientHeight wd)\<rparr>"

definition onLogScroll :: "widget \<Rightarrow> widget" where
  \<comment> \<open>lines 156-159: the scroll listener of the log\<close>
  "onLogScroll wd =
     (let nearBottom = (scrollTop wd \<ge> scrollHeight wd - clientHeight wd - 4)
      in wd\<lparr>stickBottom := nearBottom\<rparr>)"

definition userScroll :: "int \<Rightarrow> widget \<Rightarrow> widget" where
  \<comment> \<open>the user scrolls the log to offset \<open>t\<close>; the browser then runs the listener\<close>
  "userScroll t wd = onLogScroll (wd\<lparr>scrollTop := t\<rparr>)"

definition rowHtml :: "string \<Rightarrow> string \<Rightarrow> string" where
  \<comment> \<open>the template of line 307: the avatar, then the bubble around \<open>html\<close>\<close>
  "rowHtml type html =
     ''<div class='' @ [CHR 0x22] @ ''bb-av '' @ type @ [CHR 0x22] @ ''>''
     @ (if type = ''you'' then ''Y'' else ''B'')
     @ ''</div><div class='' @ [CHR 0x22] @ ''bb-bubble'' @ [CHR 0x22] @ ''>''
     @ html @ ''</div>''"

definition appendRow :: "string \<Rightarrow> string \<Rightarrow> widget \<Rightarrow> widget" where
  \<comment> \<open>lines 304-310, \<^verbatim>\<open>append(type, html)\<close>\<close>
  "appendRow type html wd =
     (let r = \<lparr>rid = nextId wd, className = ''bb-row '' @ type,
               innerHTML = rowHtml type html\<rparr>;
          wd1 = wd\<lparr>rows := rows wd @ [r], nextId := Suc (nextId wd)\<rparr>
      in if stickBottom wd1 then scrollToBottom wd1 else wd1)"

definition newlinesToBr :: "string \<Rightarrow> string" where
  \<comment> \<open>\<^verbatim>\<open>.replace(/\n/g, "<br/>")\<close>\<close>
  "newlinesToBr s = concat (map (\<lambda>c. if c = CHR 0x0A then ''<br/>'' else [c]) s)"

definition appendYou :: "string \<Rightarrow> widget \<Rightarrow> widget" where
  "appendYou t = appendRow ''you'' (newlinesToBr (escapeText t))"

definition appendBot :: "string \<Rightarrow> widget \<Rightarrow> widget" where
  "appendBot t = appendRow ''bot'' t"

definition typingHtml :: string where
  "typingHtml = ''<div class='' @ [CHR 0x22] @ ''bb-av bot'' @ [CHR 0x22]
     @ ''>B</div><div class='' @ [CHR 0x22] @ ''bb-bubble'' @ [CHR 0x22] @ ''><i>''
     @ [CHR 0xC4, CHR 0x90] @ ''ang so'' @ [CHR 0xE1, CHR 0xBA, CHR 0xA1] @ ''n g''
     @ [CHR 0xE1, CHR 0xBB, CHR 0xA3] @ ''i '' @ [CHR 0xC3, CHR 0xBD, CHR 0xE2, CHR 0x80, CHR 0xA6]
     @ ''</i></div>''"

definition showTyping :: "widget \<Rightarrow> nat \<times> widget" where
  \<comment> \<open>lines 315-322: returns the new element, here its identity\<close>
  "showTyping wd =
     (let el = \<lparr>rid = nextId wd, className = ''bb-row bot'', innerHTML = typingHtml\<rparr>;
          wd1 = wd\<lparr>rows := rows wd @ [el], nextId := Suc (nextId wd)\<rparr>
      in (rid el, if stickBottom wd1 then scrollToBottom wd1 else wd1))"

definition removeRow :: "nat \<Rightarrow> widget \<Rightarrow> widget" where
  \<comment> \<open>\<^verbatim>\<open>el.remove()\<close>\<close>
  "removeRow i wd = wd\<lparr>rows := filter (\<lambda>r. rid r \<noteq> i) (rows wd)\<rparr>"

definition renderBot :: "jsval \<Rightarrow> widget \<Rightarrow> js_error + widget" where
  "renderBot data wd = bindE (renderBotHtml data) (\<lambda>html. Inr (appendBot html wd))"

subsection \<open>Panel lifecycle\<close>

definition greeting :: string where
  "greeting = ''Ch'' @ [CHR 0xC3, CHR 0xA0] @ ''o b'' @ [CHR 0xE1, CHR 0xBA, CHR 0xA1] @ ''n! H''
     @ [CHR 0xC3, CHR 0xA3] @ ''y cho m'' @ [CHR 0xC3, CHR 0xAC] @ ''nh bi''
     @ [CHR 0xE1, CHR 0xBA, CHR 0xBF] @ ''t th'' @ [CHR 0xE1, CHR 0xBB, CHR 0x83] @ '' lo''
     @ [CHR 0xE1, CHR 0xBA, CHR 0xA1] @ ''i y'' @ [CHR 0xC3, CHR 0xAA] @ ''u th''
     @ [CHR 0xC3, CHR 0xAD] @ ''ch, '' @ [CHR 0xC4, CHR 0x91, CHR 0xE1, CHR 0xBB, CHR 0x99]
     @ '' d'' @ [CHR 0xC3, CHR 0xA0] @ ''i mong mu'' @ [CHR 0xE1, CHR 0xBB, CHR 0x91] @ ''n v''
     @ [CHR 0xC3, CHR 0xA0] @ '' t'' @ [CHR 0xC3, CHR 0xA1] @ ''c gi''
     @ [CHR 0xE1, CHR 0xBA, CHR 0xA3] @ ''/'' @ [CHR 0xC4, CHR 0x91, CHR 0xE1, CHR 0xBB, CHR 0x81]
     @ '' t'' @ [CHR 0xC3, CHR 0xA0] @ ''i '' @ [CHR 0xC6, CHR 0xB0] @ ''a th''
     @ [CHR 0xC3, CHR 0xAD] @ ''ch '' @ [CHR 0xC4, CHR 0x91, CHR 0xE1, CHR 0xBB, CHR 0x83]
     @ '' m'' @ [CHR 0xC3, CHR 0xAC] @ ''nh g'' @ [CHR 0xE1, CHR 0xBB, CHR 0xA3] @ ''i ''
     @ [CHR 0xC3, CHR 0xBD] @ '' '' @ [CHR 0xE1, CHR 0xBA, CHR 0xA1] @ ''.''"

definition makeFab :: "widget \<Rightarrow> widget" where
  "makeFab wd = (case fab wd of Some _ \<Rightarrow> wd | None \<Rightarrow> wd\<lparr>fab := Some DisplayFlex\<rparr>)"

definition makePanel :: "widget \<Rightarrow> widget" where
  \<comment> \<open>lines 116-181; a new panel is displayed by the stylesheet's \<^verbatim>\<open>display:flex\<close>\<close>
  "makePanel wd =
     (case panel wd of
        Some _ \<Rightarrow> wd
      | None \<Rightarrow>
          let st = state wd;
              positioned = (st_x st \<noteq> None \<and> st_y st \<noteq> None);
              p = \<lparr>s_left = (if positioned then st_x st else None),
                   s_top = (if positioned then st_y st else None),
                   s_rightAuto = positioned, s_bottomAuto = positioned,
                   s_width = cssLength (if st_w st = 0 then 360 else st_w st),
                   s_height = cssLength (if st_h st = 0 then 520 else st_h st),
                   s_display = DisplayFlex\<rparr>;
              wd1 = wd\<lparr>panel := Some p, rows := [], scrollTop := 0, inputValue := [],
                        sendDisabled := False\<rparr>;
              wd2 = appendBot greeting wd1
          in wd2\<lparr>frames := Suc (frames wd2)\<rparr>)"

definition openPanel :: "widget \<Rightarrow> widget" where
  \<comment> \<open>lines 183-193\<close>
  "openPanel wd =
     (let wd1 = makePanel wd;
          wd2 = wd1\<lparr>panel := map_option (\<lambda>p. p\<lparr>s_display := DisplayFlex\<rparr>) (panel wd1)\<rparr>;
          wd3 = saveState (wd2\<lparr>state := (state wd2)\<lparr>st_open := True\<rparr>\<rparr>);
          wd4 = wd3\<lparr>fab := map_option (\<lambda>_. DisplayNone) (fab wd3)\<rparr>;
          wd5 = wd4\<lparr>inputFocused := True\<rparr>
      in wd5\<lparr>frames := Suc (frames wd5)\<rparr>)"

definition closePanel :: "widget \<Rightarrow> widget" where
  \<comment> \<open>lines 195-200\<close>
  "closePanel wd =
     (let wd1 = saveState (wd\<lparr>state := (state wd)\<lparr>st_open := False\<rparr>\<rparr>);
          wd2 = wd1\<lparr>panel := map_option (\<lambda>p. p\<lparr>s_display := DisplayNone\<rparr>) (panel wd1)\<rparr>
      in wd2\<lparr>fab := map_option (\<lambda>_. DisplayFlex) (fab wd2)\<rparr>)"

definition init :: "widget \<Rightarrow> widget" where
  \<comment> \<open>lines 384-388\<close>
  "init wd =
     (let wd1 = makePanel (makeFab wd)
      in if st_open (state wd1) then openPanel wd1 else closePanel wd1)"

definition setPosition :: "int \<Rightarrow> int \<Rightarrow> widget \<Rightarrow> widget" where
  \<comment> \<open>lines 395-404\<close>
  "setPosition px py wd =
     (case panel wd of
        None \<Rightarrow> wd
      | Some p \<Rightarrow>
          saveState (wd\<lparr>panel := Some (p\<lparr>s_left := Some px, s_top := Some py,
                                           s_rightAuto := True, s_bottomAuto := True\<rparr>),
                        state := (state wd)\<lparr>st_x := Some px, st_y := Some py\<rparr>\<rparr>))"

subsection \<open>Viewport clamping, drag and resize\<close>

definition clampIntoViewport :: "widget \<Rightarrow> widget" where
  \<comment> \<open>lines 202-217\<close>
  "clampIntoViewport wd =
     (case panel wd of
        None \<Rightarrow> wd
      | Some p \<Rightarrow>
          let r = boundingRect (innerWidth wd) (innerHeight wd) p;
              vw = innerWidth wd; vh = innerHeight wd;
              nx = min (max 8 (rc_left r)) (vw - rc_width r - 8);
              ny = min (max 8 (rc_top r)) (vh - rc_height r - 8)
          in saveState (wd\<lparr>panel := Some (p\<lparr>s_left := Some nx, s_top := Some ny,
                                               s_rightAuto := True, s_bottomAuto := True\<rparr>),
                            state := (state wd)\<lparr>st_x := Some nx, st_y := Some ny,
                                                st_w := rc_width r, st_h := rc_height r\<rparr>\<rparr>))"

text \<open>
  The drag and resize handlers are attached by \<^verbatim>\<open>makePanel\<close> to elements of the panel,
  so they run on a widget whose panel exists; on a widget without panel the model
  leaves the state unchanged. A pointer event is given by its point \<open>(px, py)\<close>, the
  result of \<^verbatim>\<open>getPoint\<close>. The move and end handlers test the session flag themselves,
  so the registration of the document listeners and the \<^verbatim>\<open>user-select\<close> of the body are
  left out.
\<close>

definition dragStart :: "int \<Rightarrow> int \<Rightarrow> widget \<Rightarrow> widget" where
  "dragStart px py wd =
     (case panel wd of
        None \<Rightarrow> wd
      | Some p \<Rightarrow>
          let r = boundingRect (innerWidth wd) (innerHeight wd) p
          in wd\<lparr>drag := \<lparr>dragging = True, d_sx = px, d_sy = py,
                           d_ox = rc_left r, d_oy = rc_top r\<rparr>\<rparr>)"

definition dragMove :: "int \<Rightarrow> int \<Rightarrow> widget \<Rightarrow> widget" where
  "dragMove px py wd =
     (if \<not> dragging (drag wd) then wd
      else
        let nx = d_ox (drag wd) + (px - d_sx (drag wd));
            ny = d_oy (drag wd) + (py - d_sy (drag wd))
        in wd\<lparr>panel := map_option (\<lambda>p. p\<lparr>s_left := Some nx, s_top := Some ny,
                                              s_rightAuto := True, s_bottomAuto := True\<rparr>)
                           (panel wd)\<rparr>)"

definition dragEnd :: "widget \<Rightarrow> widget" where
  "dragEnd wd =
     (if \<not> dragging (drag wd) then wd
      else clampIntoViewport (wd\<lparr>drag := (drag wd)\<lparr>dragging := False\<rparr>\<rparr>))"

definition resizeStart :: "int \<Rightarrow> int \<Rightarrow> widget \<Rightarrow> widget" where
  "resizeStart px py wd =
     (case panel wd of
        None \<Rightarrow> wd
      | Some p \<Rightarrow>
          let r = boundingRect (innerWidth wd) (innerHeight wd) p
          in wd\<lparr>resize := \<lparr>resizing = True, z_sw = rc_width r, z_sh = rc_height r,
                             z_sx = px, z_sy = py\<rparr>\<rparr>)"

definition resizeMove :: "int \<Rightarrow> int \<Rightarrow> widget \<Rightarrow> widget" where
  "resizeMove px py wd =
     (if \<not> resizing (resize wd) then wd
      else
        let nw = max 300 (z_sw (resize wd) + (px - z_sx (resize wd)));
            nh = max 380 (z_sh (resize wd) + (py - z_sy (resize wd)));
            wd1 = wd\<lparr>panel := map_option (\<lambda>p. p\<lparr>s_width := cssLength nw,
                                                     s_height := cssLength nh\<rparr>) (panel wd)\<rparr>
        in if stickBottom wd1 then wd1\<lparr>frames := Suc (frames wd1)\<rparr> else wd1)"

definition resizeEnd :: "widget \<Rightarrow> widget" where
  "resizeEnd wd =
     (if \<not> resizing (resize wd) then wd
      else clampIntoViewport (wd\<lparr>resize := (resize wd)\<lparr>resizing := False\<rparr>\<rparr>))"

definition animationFrame :: "widget \<Rightarrow> widget" where
  \<comment> \<open>the browser runs one queued callback \<^verbatim>\<open>log.scrollTop = log.scrollHeight\<close>\<close>
  "animationFrame wd =
     (if frames wd = 0 then wd else scrollToBottom (wd\<lparr>frames := frames wd - 1\<rparr>))"

subsection \<open>The send cycle\<close>

text \<open>
  \<^verbatim>\<open>String.prototype.trim\<close> removes white space and line terminators at both ends.
  \<open>whiteSpace\<close> lists their UTF-8 encodings: U+0009 to U+000D, U+0020, U+00A0, U+1680,
  U+2000 to U+200A, U+2028, U+2029, U+202F, U+205F, U+3000 and U+FEFF.
\<close>

definition whiteSpace :: "string list" where
  "whiteSpace =
     [[CHR 0x09], [CHR 0x0A], [CHR 0x0B], [CHR 0x0C], [CHR 0x0D], [CHR 0x20],
      [CHR 0xC2, CHR 0xA0], [CHR 0xE1, CHR 0x9A, CHR 0x80],
      [CHR 0xE2, CHR 0x80, CHR 0x80], [CHR 0xE2, CHR 0x80, CHR 0x81],
      [CHR 0xE2, CHR 0x80, CHR 0x82], [CHR 0xE2, CHR 0x80, CHR 0x83],
      [CHR 0xE2, CHR 0x80, CHR 0x84], [CHR 0xE2, CHR 0x80, CHR 0x85],
      [CHR 0xE2, CHR 0x80, CHR 0x86], [CHR 0xE2, CHR 0x80, CHR 0x87],
      [CHR 0xE2, CHR 0x80, CHR 0x88], [CHR 0xE2, CHR 0x80, CHR 0x89],
      [CHR 0xE2, CHR 0x80, CHR 0x8A], [CHR 0xE2, CHR 0x80, CHR 0xA8],
      [CHR 0xE2, CHR 0x80, CHR 0xA9], [CHR 0xE2, CHR 0x80, CHR 0xAF],
      [CHR 0xE2, CHR 0x81, CHR 0x9F], [CHR 0xE3, CHR 0x80, CHR 0x80],
      [CHR 0xEF, CHR 0xBB, CHR 0xBF]]"

function stripLeading :: "string list \<Rightarrow> string \<Rightarrow> string" where
  "stripLeading ps s =
     (case find (\<lambda>p. p \<noteq> [] \<and> take (length p) s = p) ps of
        None \<Rightarrow> s
      | Some p \<Rightarrow> stripLeading ps (drop (length p) s))"
  by pat_completeness auto
termination
proof (relation "measure (\<lambda>(ps, s). length s)")
  show "wf (measure (\<lambda>(ps, s). length s))" by simp
next
  fix ps :: "string list" and s p :: string
  assume "find (\<lambda>p. p \<noteq> [] \<and> take (length p) s = p) ps = Some p"
  then have "p \<noteq> []" and "take (length p) s = p"
    by (auto simp: find_Some_iff)
  then have "0 < length p" and "length p \<le> length s"
    by (auto simp: take_eq_Nil dest: arg_cong [where f = length])
  then show "((ps, drop (length p) s), (ps, s)) \<in> measure (\<lambda>(ps, s). length s)"
    by (cases p) auto
qed

declare stripLeading.simps [simp del]

definition trim :: "string \<Rightarrow> string" where
  "trim s = rev (stripLeading (map rev whiteSpace) (rev (stripLeading whiteSpace s)))"

text \<open>
  The outcome of the network call: \<^verbatim>\<open>fetch\<close> rejects, or resolves with a response of
  which \<^verbatim>\<open>res.ok\<close> and the outcome of \<^verbatim>\<open>res.json()\<close> matter.
\<close>

datatype body = Unparsable | Parsed jsval

datatype outcome = Rejected | Response bool body

definition serverErrorMsg :: string where
  "serverErrorMsg = ''M'' @ [CHR 0xC3, CHR 0xA1] @ ''y ch'' @ [CHR 0xE1, CHR 0xBB, CHR 0xA7]
     @ '' b'' @ [CHR 0xC3, CHR 0xA1] @ ''o l'' @ [CHR 0xE1, CHR 0xBB, CHR 0x97] @ ''i. B''
     @ [CHR 0xE1, CHR 0xBA, CHR 0xA1] @ ''n th'' @ [CHR 0xE1, CHR 0xBB, CHR 0xAD] @ '' l''
     @ [CHR 0xE1, CHR 0xBA, CHR 0xA1] @ ''i sau nh'' @ [CHR 0xC3, CHR 0xA9] @ ''.''"

definition networkErrorMsg :: string where
  "networkErrorMsg = ''C'' @ [CHR 0xC3, CHR 0xB3] @ '' l'' @ [CHR 0xE1, CHR 0xBB, CHR 0x97]
     @ ''i m'' @ [CHR 0xE1, CHR 0xBA, CHR 0xA1] @ ''ng/API. Th'' @ [CHR 0xE1, CHR 0xBB, CHR 0xAD]
     @ '' l'' @ [CHR 0xE1, CHR 0xBA, CHR 0xA1] @ ''i sau nh'' @ [CHR 0xC3, CHR 0xA9] @ ''.''"

text \<open>
  \<^verbatim>\<open>onSend\<close> is asynchronous. \<open>onSendStart\<close> is its part up to the \<^verbatim>\<open>await fetch\<close>: it
  returns nothing for an empty trimmed text, else the message of the request, the
  typing row and the widget. It throws when \<^verbatim>\<open>input\<close> does not exist yet.
  \<open>onSendSettle\<close> is the part after the \<^verbatim>\<open>await\<close>, run on the widget as it is when the
  call settles. \<open>onSend\<close> is a cycle with nothing in between.
\<close>

definition onSendStart :: "widget \<Rightarrow> js_error + (string \<times> nat \<times> widget) option" where
  "onSendStart wd =
     (if panel wd = None then Inl TypeError
      else
        let text = trim (inputValue wd)
        in if text = [] then Inr None
           else
             let wd1 = appendYou text wd;
                 wd2 = wd1\<lparr>inputValue := [], sendDisabled := True\<rparr>;
                 (typing, wd3) = showTyping wd2
             in Inr (Some (text, typing, wd3)))"

definition onSendSettle :: "outcome \<Rightarrow> nat \<Rightarrow> widget \<Rightarrow> widget" where
  "onSendSettle oc typing wd =
     (let wd1 =
            (case oc of
               Rejected \<Rightarrow> appendBot networkErrorMsg wd
             | Response ok b \<Rightarrow>
                 let data = (case b of Unparsable \<Rightarrow> JNull | Parsed v \<Rightarrow> v)
                 in if \<not> ok then appendBot serverErrorMsg wd
                    else (case renderBot (orElse data (JObj [])) wd of
                            Inl e \<Rightarrow> appendBot networkErrorMsg wd
                          | Inr wd' \<Rightarrow> wd'));
          wd2 = removeRow typing wd1
      in wd2\<lparr>sendDisabled := False, inputFocused := True\<rparr>)"

definition onSend :: "outcome \<Rightarrow> widget \<Rightarrow> js_error + widget" where
  "onSend oc wd =
     bindE (onSendStart wd)
       (\<lambda>started. case started of
                    None \<Rightarrow> Inr wd
                  | Some (text, typing, wd1) \<Rightarrow> Inr (onSendSettle oc typing wd1))"

subsection \<open>Events\<close>

text \<open>
  What can happen to a running widget: the public surface and the panel's buttons
  (\<open>Open\<close>, \<open>Close\<close>, \<open>SetPosition\<close>), the pointer gestures on the header and on the
  corner handle, a scroll of the log by the user, typing into the input, the two halves
  of a send cycle, an animation frame, and a change of the viewport. \<open>SendSettle\<close>
  carries the typing row of its cycle.
\<close>

datatype event =
    Open
  | Close
  | SetPosition int int
  | DragStart int int
  | DragMove int int
  | DragEnd
  | ResizeStart int int
  | ResizeMove int int
  | ResizeEnd
  | LogScroll int
  | TypeText string
  | SendStart
  | SendSettle outcome nat
  | Frame
  | Viewport int int

fun step :: "event \<Rightarrow> widget \<Rightarrow> widget" where
  "step Open wd = openPanel wd"
| "step Close wd = closePanel wd"
| "step (SetPosition px py) wd = setPosition px py wd"
| "step (DragStart px py) wd = dragStart px py wd"
| "step (DragMove px py) wd = dragMove px py wd"
| "step DragEnd wd = dragEnd wd"
| "step (ResizeStart px py) wd = resizeStart px py wd"
| "step (ResizeMove px py) wd = resizeMove px py wd"
| "step ResizeEnd wd = resizeEnd wd"
| "step (LogScroll t) wd = userScroll t wd"
| "step (TypeText s) wd = wd\<lparr>inputValue := s\<rparr>"
| "step SendStart wd =
     (case onSendStart wd of Inr (Some (text, typing, wd1)) \<Rightarrow> wd1 | _ \<Rightarrow> wd)"
| "step (SendSettle oc typing) wd = onSendSettle oc typing wd"
| "step Frame wd = animationFrame wd"
| "step (Viewport vw vh) wd = wd\<lparr>innerWidth := vw, innerHeight := vh\<rparr>"

fun run :: "event list \<Rightarrow> widget \<Rightarrow> widget" where
  "run [] wd = wd"
| "run (e # es) wd = run es (step e wd)"

section \<open>Predicates of the statements\<close>

text \<open>The floors of the persisted geometry: \<open>w \<ge> 300\<close> and \<open>h \<ge> 380\<close>.\<close>

definition floorsOk :: "PanelState \<Rightarrow> bool" where
  "floorsOk st = (300 \<le> st_w st \<and> 380 \<le> st_h st)"

definition recordFloorsOk :: "StoredRecord \<Rightarrow> bool" where
  "recordFloorsOk r =
     ((case r_w r of Some v \<Rightarrow> 300 \<le> v | None \<Rightarrow> False)
      \<and> (case r_h r of Some v \<Rightarrow> 380 \<le> v | None \<Rightarrow> False))"

definition displayed :: "widget \<Rightarrow> bool" where
  "displayed wd = (case panel wd of Some p \<Rightarrow> s_display p = DisplayFlex | None \<Rightarrow> False)"

text \<open>
  A gesture is released while the panel is shown: every \<open>DragEnd\<close> or \<open>ResizeEnd\<close> that
  ends a running session finds the panel displayed.
\<close>

fun releaseShown :: "event \<Rightarrow> widget \<Rightarrow> bool" where
  "releaseShown DragEnd wd = (\<not> dragging (drag wd) \<or> displayed wd)"
| "releaseShown ResizeEnd wd = (\<not> resizing (resize wd) \<or> displayed wd)"
| "releaseShown _ wd = True"

fun releasesShown :: "event list \<Rightarrow> widget \<Rightarrow> bool" where
  "releasesShown [] wd = True"
| "releasesShown (e # es) wd = (releaseShown e wd \<and> releasesShown es (step e wd))"

text \<open>
  The geometry invariant of a started widget, relative to the storage \<open>ls\<close> found at
  start: the floors hold for the state and for the panel's inline size, and the slot
  holds the current state, or its first content when the storage refuses writes.
\<close>

definition sizeOk :: "panelStyle \<Rightarrow> bool" where
  "sizeOk p =
     ((case s_width p of Some v \<Rightarrow> 300 \<le> v | None \<Rightarrow> False)
      \<and> (case s_height p of Some v \<Rightarrow> 380 \<le> v | None \<Rightarrow> False))"

definition geometryOk :: "localStorage \<Rightarrow> widget \<Rightarrow> bool" where
  "geometryOk ls wd =
     (floorsOk (state wd)
      \<and> (case panel wd of Some p \<Rightarrow> sizeOk p | None \<Rightarrow> False)
      \<and> setThrows (storage wd) = setThrows ls
      \<and> (if setThrows ls then item (storage wd) = item ls
         else item (storage wd) = Decoded (toRecord (state wd))))"



text \<open>
  The widget at the \<^verbatim>\<open>await\<close> of a send cycle started on \<open>wd\<close>: the user row and the
  typing row are appended, the input is cleared, the button disabled. \<open>sentRows wd msg\<close>
  is the transcript at the end of the cycle when it ends with the bot message \<open>msg\<close>:
  the rows of \<open>wd\<close>, the user row and the bot row, the typing row removed.
\<close>

definition awaiting :: "widget \<Rightarrow> widget" where
  "awaiting wd =
     snd (showTyping ((appendYou (trim (inputValue wd)) wd)\<lparr>inputValue := [],
                                                            sendDisabled := True\<rparr>))"



section \<open>Example widgets and payloads\<close>

definition demoLayout :: "row list \<Rightarrow> int" where
  "demoLayout rs = 40 * int (length rs)"

definition emptyStorage :: localStorage where
  "emptyStorage = \<lparr>item = NoItem, getThrows = False, setThrows = False\<rparr>"

definition smallStorage :: localStorage where
  \<comment> \<open>the slot holds \<^verbatim>\<open>{"w":100,"h":100}\<close>\<close>
  "smallStorage =
     \<lparr>item = Decoded \<lparr>r_open = None, r_x = None, r_y = None, r_w = Some 100, r_h = Some 100\<rparr>,
      getThrows = False, setThrows = False\<rparr>"

definition bootWidget :: widget where
  \<comment> \<open>the closure before \<^verbatim>\<open>init()\<close>, in a viewport of 1280 by 800\<close>
  "bootWidget = boot emptyStorage 1280 800 400 demoLayout"

definition demoWidget :: widget where
  \<comment> \<open>started and opened\<close>
  "demoWidget = openPanel (init bootWidget)"

definition narrowWidget :: widget where
  \<comment> \<open>the same in a viewport of 300 by 400, smaller than the panel\<close>
  "narrowWidget = openPanel (init (boot emptyStorage 300 400 300 demoLayout))"

definition typedWidget :: widget where
  "typedWidget = step (TypeText '' hi '') demoWidget"

definition demoEvents :: "event list" where
  \<comment> \<open>open, shrink below the floors, drag out of the viewport, close\<close>
  "demoEvents =
     [Open, ResizeStart 900 700, ResizeMove 100 100, ResizeEnd,
      DragStart 600 300, DragMove 3000 2000, DragEnd, SetPosition 5 5, Close]"

definition hiddenRelease :: "event list" where
  \<comment> \<open>the panel is closed while the header is held\<close>
  "hiddenRelease = [DragStart 600 300, Close, DragEnd]"





definition qtyPayload :: jsval where
  \<comment> \<open>\<^verbatim>\<open>{"answer":"ok","books":[{"title":"T","author":"A","qty":"<img src=x onerror=alert(1)>"}]}\<close>\<close>
  "qtyPayload =
     JObj [(''answer'', JStr ''ok''),
           (''books'', JArr [JObj [(''title'', JStr ''T''), (''author'', JStr ''A''),
                                    (''qty'', JStr ''<img src=x onerror=alert(1)>'')]])]"

section \<open>Which fields an operation touches\<close>

lemma appendRow_frame [simp]:
  "state (appendRow t h wd) = state wd"
  "storage (appendRow t h wd) = storage wd"
  "panel (appendRow t h wd) = panel wd"
  "fab (appendRow t h wd) = fab wd"
  "stickBottom (appendRow t h wd) = stickBottom wd"
  "inputValue (appendRow t h wd) = inputValue wd"
  "sendDisabled (appendRow t h wd) = sendDisabled wd"
  "inputFocused (appendRow t h wd) = inputFocused wd"
  "frames (appendRow t h wd) = frames wd"
  "drag (appendRow t h wd) = drag wd"
  "resize (appendRow t h wd) = resize wd"
  "innerWidth (appendRow t h wd) = innerWidth wd"
  "innerHeight (appendRow t h wd) = innerHeight wd"
  "clientHeight (appendRow t h wd) = clientHeight wd"
  "rowsHeight (appendRow t h wd) = rowsHeight wd"
  "nextId (appendRow t h wd) = Suc (nextId wd)"
  "rows (appendRow t h wd) =
     rows wd @ [\<lparr>rid = nextId wd, className = ''bb-row '' @ t, innerHTML = rowHtml t h\<rparr>]"
  by (simp_all add: appendRow_def Let_def scrollToBottom_def)

lemma showTyping_frame [simp]:
  "state (snd (showTyping wd)) = state wd"
  "storage (snd (showTyping wd)) = storage wd"
  "panel (snd (showTyping wd)) = panel wd"
  "stickBottom (snd (showTyping wd)) = stickBottom wd"
  "inputValue (snd (showTyping wd)) = inputValue wd"
  "sendDisabled (snd (showTyping wd)) = sendDisabled wd"
  "inputFocused (snd (showTyping wd)) = inputFocused wd"
  "drag (snd (showTyping wd)) = drag wd"
  "resize (snd (showTyping wd)) = resize wd"
  "clientHeight (snd (showTyping wd)) = clientHeight wd"
  "rowsHeight (snd (showTyping wd)) = rowsHeight wd"
  "nextId (snd (showTyping wd)) = Suc (nextId wd)"
  "fst (showTyping wd) = nextId wd"
  "rows (snd (showTyping wd)) =
     rows wd @ [\<lparr>rid = nextId wd, className = ''bb-row bot'', innerHTML = typingHtml\<rparr>]"
  by (simp_all add: showTyping_def Let_def scrollToBottom_def)

lemma removeRow_frame [simp]:
  "state (removeRow i wd) = state wd"
  "storage (removeRow i wd) = storage wd"
  "panel (removeRow i wd) = panel wd"
  "stickBottom (removeRow i wd) = stickBottom wd"
  "scrollTop (removeRow i wd) = scrollTop wd"
  "drag (removeRow i wd) = drag wd"
  "resize (removeRow i wd) = resize wd"
  "rows (removeRow i wd) = filter (\<lambda>r. rid r \<noteq> i) (rows wd)"
  by (simp_all add: removeRow_def)

lemma renderBot_frame:
  assumes "renderBot data wd = Inr wd'"
  shows "state wd' = state wd \<and> storage wd' = storage wd \<and> panel wd' = panel wd
         \<and> drag wd' = drag wd \<and> resize wd' = resize wd \<and> stickBottom wd' = stickBottom wd"
  using assms by (auto simp: renderBot_def bindE_def appendBot_def split: sum.splits)

lemma onSendSettle_frame [simp]:
  "state (onSendSettle oc i wd) = state wd"
  "storage (onSendSettle oc i wd) = storage wd"
  "panel (onSendSettle oc i wd) = panel wd"
  "drag (onSendSettle oc i wd) = drag wd"
  "resize (onSendSettle oc i wd) = resize wd"
  by (auto simp: onSendSettle_def Let_def appendBot_def
      split: outcome.splits body.splits sum.splits dest: renderBot_frame)

lemma onSendStart_frame:
  assumes "onSendStart wd = Inr (Some (text, i, wd'))"
  shows "state wd' = state wd \<and> storage wd' = storage wd \<and> panel wd' = panel wd
         \<and> drag wd' = drag wd \<and> resize wd' = resize wd"
proof -
  from assms have "wd' = snd (showTyping ((appendYou (trim (inputValue wd)) wd)\<lparr>inputValue := [], sendDisabled := True\<rparr>))"
    by (auto simp: onSendStart_def Let_def split: if_splits prod.splits)
  then show ?thesis by (simp add: appendYou_def showTyping_def Let_def scrollToBottom_def)
qed

lemma geometry_untouched:
  assumes "state wd' = state wd" and "storage wd' = storage wd" and "panel wd' = panel wd"
  shows "geometryOk ls wd' = geometryOk ls wd"
  by (simp add: geometryOk_def assms)

lemma saveState_frame [simp]:
  "state (saveState wd) = state wd"
  "panel (saveState wd) = panel wd"
  "drag (saveState wd) = drag wd"
  "resize (saveState wd) = resize wd"
  "setThrows (storage (saveState wd)) = setThrows (storage wd)"
  "getThrows (storage (saveState wd)) = getThrows (storage wd)"
  "item (storage (saveState wd)) =
     (if setThrows (storage wd) then item (storage wd) else Decoded (toRecord (state wd)))"
  by (simp_all add: saveState_def setItem_def)

lemma makePanel_exists: "panel wd = Some p \<Longrightarrow> makePanel wd = wd"
  by (simp add: makePanel_def)

lemma openPanel_existing:
  assumes "panel wd = Some p"
  shows "state (openPanel wd) = (state wd)\<lparr>st_open := True\<rparr>"
    and "panel (openPanel wd) = Some (p\<lparr>s_display := DisplayFlex\<rparr>)"
    and "item (storage (openPanel wd)) =
           (if setThrows (storage wd) then item (storage wd)
            else Decoded (toRecord ((state wd)\<lparr>st_open := True\<rparr>)))"
    and "setThrows (storage (openPanel wd)) = setThrows (storage wd)"
  using assms by (simp_all add: openPanel_def Let_def makePanel_exists)

lemma closePanel_fields:
  "state (closePanel wd) = (state wd)\<lparr>st_open := False\<rparr>"
  "panel (closePanel wd) = map_option (\<lambda>p. p\<lparr>s_display := DisplayNone\<rparr>) (panel wd)"
  "item (storage (closePanel wd)) =
     (if setThrows (storage wd) then item (storage wd)
      else Decoded (toRecord ((state wd)\<lparr>st_open := False\<rparr>)))"
  "setThrows (storage (closePanel wd)) = setThrows (storage wd)"
  by (simp_all add: closePanel_def Let_def)

lemma setPosition_existing:
  assumes "panel wd = Some p"
  shows "state (setPosition px py wd) = (state wd)\<lparr>st_x := Some px, st_y := Some py\<rparr>"
    and "panel (setPosition px py wd) =
           Some (p\<lparr>s_left := Some px, s_top := Some py, s_rightAuto := True, s_bottomAuto := True\<rparr>)"
    and "item (storage (setPosition px py wd)) =
           (if setThrows (storage wd) then item (storage wd)
            else Decoded (toRecord ((state wd)\<lparr>st_x := Some px, st_y := Some py\<rparr>)))"
    and "setThrows (storage (setPosition px py wd)) = setThrows (storage wd)"
  using assms by (simp_all add: setPosition_def)

lemma clamp_existing:
  assumes "panel wd = Some p"
    and "r = boundingRect (innerWidth wd) (innerHeight wd) p"
    and "nx = min (max 8 (rc_left r)) (innerWidth wd - rc_width r - 8)"
    and "ny = min (max 8 (rc_top r)) (innerHeight wd - rc_height r - 8)"
    and "st = (state wd)\<lparr>st_x := Some nx, st_y := Some ny, st_w := rc_width r, st_h := rc_height r\<rparr>"
  shows "state (clampIntoViewport wd) = st"
    and "panel (clampIntoViewport wd) =
           Some (p\<lparr>s_left := Some nx, s_top := Some ny, s_rightAuto := True, s_bottomAuto := True\<rparr>)"
    and "item (storage (clampIntoViewport wd)) =
           (if setThrows (storage wd) then item (storage wd) else Decoded (toRecord st))"
    and "setThrows (storage (clampIntoViewport wd)) = setThrows (storage wd)"
  using assms by (simp_all add: clampIntoViewport_def Let_def)

lemma geometryOk_openPanel: "geometryOk ls wd \<Longrightarrow> geometryOk ls (openPanel wd)"
proof -
  assume g: "geometryOk ls wd"
  then obtain p where p: "panel wd = Some p" "sizeOk p"
    by (auto simp: geometryOk_def split: option.splits)
  from g show ?thesis
    unfolding geometryOk_def openPanel_existing [OF p(1)]
    using p(2) by (simp add: floorsOk_def sizeOk_def)
qed

lemma geometryOk_closePanel: "geometryOk ls wd \<Longrightarrow> geometryOk ls (closePanel wd)"
proof -
  assume g: "geometryOk ls wd"
  then obtain p where p: "panel wd = Some p" "sizeOk p"
    by (auto simp: geometryOk_def split: option.splits)
  from g show ?thesis
    unfolding geometryOk_def closePanel_fields
    using p by (simp add: floorsOk_def sizeOk_def)
qed

lemma geometryOk_setPosition: "geometryOk ls wd \<Longrightarrow> geometryOk ls (setPosition px py wd)"
proof -
  assume g: "geometryOk ls wd"
  then obtain p where p: "panel wd = Some p" "sizeOk p"
    by (auto simp: geometryOk_def split: option.splits)
  from g show ?thesis
    unfolding geometryOk_def setPosition_existing [OF p(1)]
    using p(2) by (simp add: floorsOk_def sizeOk_def)
qed

lemma boundingRect_shown:
  assumes "s_display p = DisplayFlex" and "s_width p = Some a" and "s_height p = Some b"
  shows "rc_width (boundingRect vw vh p) = a" and "rc_height (boundingRect vw vh p) = b"
  using assms by (simp_all add: boundingRect_def Let_def)

lemma geometryOk_clamp:
  assumes g: "geometryOk ls wd" and d: "displayed wd"
  shows "geometryOk ls (clampIntoViewport wd)"
proof -
  from g obtain p where p: "panel wd = Some p" "sizeOk p"
    by (auto simp: geometryOk_def split: option.splits)
  from p(2) obtain a b where ab: "s_width p = Some a" "300 \<le> a" "s_height p = Some b" "380 \<le> b"
    by (auto simp: sizeOk_def split: option.splits)
  from d p(1) have shown: "s_display p = DisplayFlex" by (simp add: displayed_def)
  note rw = boundingRect_shown [OF shown ab(1) ab(3)]
  from g show ?thesis
    unfolding geometryOk_def clamp_existing [OF p(1) refl refl refl refl]
    using p(2) ab by (simp add: floorsOk_def sizeOk_def rw)
qed

lemma geometryOk_step:
  assumes "geometryOk ls wd" and "releaseShown e wd"
  shows "geometryOk ls (step e wd)"
proof (cases e)
  case Open
  with assms show ?thesis by (simp add: geometryOk_openPanel)
next
  case Close
  with assms show ?thesis by (simp add: geometryOk_closePanel)
next
  case (SetPosition px py)
  with assms show ?thesis by (simp add: geometryOk_setPosition)
next
  case (DragStart px py)
  with assms show ?thesis
    by (auto simp: dragStart_def Let_def geometryOk_def split: option.splits)
next
  case (DragMove px py)
  with assms show ?thesis
    by (auto simp: dragMove_def Let_def geometryOk_def sizeOk_def split: option.splits)
next
  case DragEnd
  show ?thesis
  proof (cases "dragging (drag wd)")
    case True
    let ?wd = "wd\<lparr>drag := (drag wd)\<lparr>dragging := False\<rparr>\<rparr>"
    from assms True DragEnd have "geometryOk ls ?wd" and "displayed ?wd"
      by (simp_all add: geometryOk_def displayed_def)
    then have "geometryOk ls (clampIntoViewport ?wd)" by (rule geometryOk_clamp)
    with True DragEnd show ?thesis by (simp add: dragEnd_def)
  next
    case False
    with assms DragEnd show ?thesis by (simp add: dragEnd_def)
  qed
next
  case (ResizeStart px py)
  with assms show ?thesis
    by (auto simp: resizeStart_def Let_def geometryOk_def split: option.splits)
next
  case (ResizeMove px py)
  with assms show ?thesis
    by (auto simp: resizeMove_def Let_def geometryOk_def sizeOk_def cssLength_def
        split: option.splits)
next
  case ResizeEnd
  show ?thesis
  proof (cases "resizing (resize wd)")
    case True
    let ?wd = "wd\<lparr>resize := (resize wd)\<lparr>resizing := False\<rparr>\<rparr>"
    from assms True ResizeEnd have "geometryOk ls ?wd" and "displayed ?wd"
      by (simp_all add: geometryOk_def displayed_def)
    then have "geometryOk ls (clampIntoViewport ?wd)" by (rule geometryOk_clamp)
    with True ResizeEnd show ?thesis by (simp add: resizeEnd_def)
  next
    case False
    with assms ResizeEnd show ?thesis by (simp add: resizeEnd_def)
  qed
next
  case (LogScroll t)
  with assms show ?thesis
    by (simp add: userScroll_def onLogScroll_def Let_def geometryOk_def)
next
  case (TypeText s)
  with assms show ?thesis by (simp add: geometryOk_def)
next
  case SendStart
  show ?thesis
  proof (cases "onSendStart wd")
    case (Inl a)
    with assms SendStart show ?thesis by simp
  next
    case (Inr r)
    show ?thesis
    proof (cases r)
      case None
      with Inr assms SendStart show ?thesis by simp
    next
      case (Some tr)
      obtain msg i wd' where tr: "tr = (msg, i, wd')" by (cases tr)
      with Some Inr have "onSendStart wd = Inr (Some (msg, i, wd'))" by simp
      from onSendStart_frame [OF this] have "geometryOk ls wd' = geometryOk ls wd"
        by (intro geometry_untouched) simp_all
      with assms Inr Some tr SendStart show ?thesis by simp
    qed
  qed
next
  case (SendSettle oc i)
  have "geometryOk ls (onSendSettle oc i wd) = geometryOk ls wd"
    by (intro geometry_untouched) simp_all
  with assms SendSettle show ?thesis by simp
next
  case Frame
  with assms show ?thesis
    by (simp add: animationFrame_def scrollToBottom_def geometryOk_def)
next
  case (Viewport vw vh)
  with assms show ?thesis by (simp add: geometryOk_def)
qed

lemma geometryOk_run:
  "geometryOk ls wd \<Longrightarrow> releasesShown es wd \<Longrightarrow> geometryOk ls (run es wd)"
  by (induction es arbitrary: wd) (auto simp: geometryOk_step)

lemma geometryOk_init:
  assumes "floorsOk (loadState ls)"
  shows "geometryOk ls (init (boot ls vw vh ch lay))"
proof -
  let ?b = "makePanel (makeFab (boot ls vw vh ch lay))"
  have b: "floorsOk (state ?b)" "case panel ?b of Some p \<Rightarrow> sizeOk p | None \<Rightarrow> False"
    "storage ?b = ls"
    using assms
    by (simp_all add: makePanel_def makeFab_def boot_def Let_def appendBot_def
        sizeOk_def cssLength_def floorsOk_def)
  then obtain p where p: "panel ?b = Some p" "sizeOk p"
    by (auto split: option.splits)
  show ?thesis
    unfolding geometryOk_def init_def Let_def
    using b(1,3) p(2)
    by (simp add: openPanel_existing [OF p(1)] closePanel_fields p(1) floorsOk_def sizeOk_def)
qed

lemma panel_step: "panel wd \<noteq> None \<Longrightarrow> panel (step e wd) \<noteq> None"
proof (cases e)
  case SendStart
  assume p: "panel wd \<noteq> None"
  show ?thesis
  proof (cases "onSendStart wd")
    case (Inl a)
    with p SendStart show ?thesis by simp
  next
    case (Inr r)
    show ?thesis
    proof (cases r)
      case None
      with Inr p SendStart show ?thesis by simp
    next
      case (Some tr)
      obtain msg i wd' where tr: "tr = (msg, i, wd')" by (cases tr)
      with Some Inr have "onSendStart wd = Inr (Some (msg, i, wd'))" by simp
      from onSendStart_frame [OF this] p Inr Some tr SendStart show ?thesis by simp
    qed
  qed
qed (auto simp: openPanel_def closePanel_def setPosition_def dragStart_def dragMove_def
      dragEnd_def resizeStart_def resizeMove_def resizeEnd_def clampIntoViewport_def
      userScroll_def onLogScroll_def animationFrame_def scrollToBottom_def makePanel_def
      Let_def split: option.splits)

lemma panel_run: "panel wd \<noteq> None \<Longrightarrow> panel (run es wd) \<noteq> None"
proof (induction es arbitrary: wd)
  case Nil
  then show ?case by simp
next
  case (Cons e es)
  from Cons.prems have "panel (step e wd) \<noteq> None" by (rule panel_step)
  then have "panel (run es (step e wd)) \<noteq> None" by (rule Cons.IH)
  then show ?case by simp
qed

lemma panel_makePanel: "panel (makePanel wd) \<noteq> None"
  by (simp add: makePanel_def Let_def appendBot_def split: option.splits)

lemma panel_openPanel: "panel (openPanel wd) \<noteq> None"
  using panel_makePanel [of wd] by (auto simp: openPanel_def Let_def)

lemma panel_init: "panel (init wd) \<noteq> None"
  using panel_makePanel [of "makeFab wd"]
  by (auto simp: init_def Let_def openPanel_def closePanel_def makePanel_exists)

lemma onSendStart_result:
  assumes "panel wd \<noteq> None" and "trim (inputValue wd) \<noteq> []"
  shows "onSendStart wd = Inr (Some (trim (inputValue wd), Suc (nextId wd), awaiting wd))"
  using assms
  by (simp add: onSendStart_def awaiting_def Let_def showTyping_def appendYou_def split: prod.splits)

lemma awaiting_fields:
  "sendDisabled (awaiting wd)"
  "rows (awaiting wd) =
     rows wd @ [\<lparr>rid = nextId wd, className = ''bb-row you'',
                 innerHTML = rowHtml ''you'' (newlinesToBr (escapeText (trim (inputValue wd))))\<rparr>,
                \<lparr>rid = Suc (nextId wd), className = ''bb-row bot'', innerHTML = typingHtml\<rparr>]"
  "nextId (awaiting wd) = Suc (Suc (nextId wd))"
  by (simp_all add: awaiting_def appendYou_def)

lemma onSend_result:
  assumes "panel wd \<noteq> None" and "trim (inputValue wd) \<noteq> []"
  shows "onSend oc wd = Inr (onSendSettle oc (Suc (nextId wd)) (awaiting wd))"
  by (simp add: onSend_def bindE_def onSendStart_result [OF assms])

lemma settle_idle:
  "i \<notin> rid ` set (rows (onSendSettle oc i wd))"
  "\<not> sendDisabled (onSendSettle oc i wd)"
  "inputFocused (onSendSettle oc i wd)"
  by (auto simp: onSendSettle_def Let_def)








section \<open>Viewport clamping\<close>

text \<open>
  C4, as amended. \<^verbatim>\<open>clampIntoViewport\<close> sets the panel's left and top and the state's
  \<open>x\<close> and \<open>y\<close> to \<open>nx = min (max 8 left) (vw - width - 8)\<close> and
  \<open>ny = min (max 8 top) (vh - height - 8)\<close>, records the rectangle's width and height
  in the state and leaves the panel's size as it is. When the viewport is large enough
  (\<open>8 \<le> vw - width - 8\<close>) the result lies between 8 and \<open>vw - width - 8\<close>, and likewise
  for the top. When it is not, the upper bound wins: the result is \<open>vw - width - 8\<close>,
  which is below 8.
\<close>

theorem clampIntoViewport_bounds:
  assumes "panel wd = Some p"
    and "r = boundingRect (innerWidth wd) (innerHeight wd) p"
    and "nx = min (max 8 (rc_left r)) (innerWidth wd - rc_width r - 8)"
    and "ny = min (max 8 (rc_top r)) (innerHeight wd - rc_height r - 8)"
  shows "state (clampIntoViewport wd) =
           (state wd)\<lparr>st_x := Some nx, st_y := Some ny, st_w := rc_width r, st_h := rc_height r\<rparr>
     \<and> panel (clampIntoViewport wd) =
           Some (p\<lparr>s_left := Some nx, s_top := Some ny, s_rightAuto := True, s_bottomAuto := True\<rparr>)
     \<and> (8 \<le> innerWidth wd - rc_width r - 8 \<longrightarrow> 8 \<le> nx \<and> nx \<le> innerWidth wd - rc_width r - 8)
     \<and> (8 \<le> innerHeight wd - rc_height r - 8 \<longrightarrow> 8 \<le> ny \<and> ny \<le> innerHeight wd - rc_height r - 8)
     \<and> (innerWidth wd - rc_width r - 8 < 8 \<longrightarrow> nx = innerWidth wd - rc_width r - 8)
     \<and> (innerHeight wd - rc_height r - 8 < 8 \<longrightarrow> ny = innerHeight wd - rc_height r - 8)"
  using assms by (simp add: clampIntoViewport_def Let_def)

text \<open>
  The opened panel of 360 by 520 in a viewport of 1280 by 800 sits at its anchor,
  (898, 258), inside the margins; clamping keeps it there.
\<close>

theorem clampIntoViewport_bounds_witness:
  "panel demoWidget =
     Some \<lparr>s_left = None, s_top = None, s_rightAuto = False, s_bottomAuto = False,
           s_width = Some 360, s_height = Some 520, s_display = DisplayFlex\<rparr>
   \<and> st_x (state (clampIntoViewport demoWidget)) = Some 898
   \<and> st_y (state (clampIntoViewport demoWidget)) = Some 258
   \<and> st_w (state (clampIntoViewport demoWidget)) = 360
   \<and> st_h (state (clampIntoViewport demoWidget)) = 520"
proof -
  have p: "panel demoWidget =
     Some \<lparr>s_left = None, s_top = None, s_rightAuto = False, s_bottomAuto = False,
           s_width = Some 360, s_height = Some 520, s_display = DisplayFlex\<rparr>"
    by code_simp
  have v: "innerWidth demoWidget = 1280" "innerHeight demoWidget = 800"
    by code_simp+
  from clampIntoViewport_bounds [OF p refl refl refl] p show ?thesis
    by (simp add: v boundingRect_def)
qed

text \<open>
  The claim as stated fails where the viewport is smaller than the panel: in a viewport
  of 300 by 400 the panel of 360 by 520 is not pinned at (8, 8) but moved to
  (-68, -128), outside the viewport.
\<close>

theorem clampIntoViewport_small_viewport_counterexample:
  "st_x (state (clampIntoViewport narrowWidget)) = Some (- 68)
   \<and> st_y (state (clampIntoViewport narrowWidget)) = Some (- 128)
   \<and> map_option s_left (panel (clampIntoViewport narrowWidget)) = Some (Some (- 68))
   \<and> map_option s_top (panel (clampIntoViewport narrowWidget)) = Some (Some (- 128))"
  by code_simp

section \<open>Floors of the persisted geometry\<close>

text \<open>
  C5, as amended. The state is loaded without validation, and every save writes the
  state as it is. If the state loaded at start has \<open>w \<ge> 300\<close> and \<open>h \<ge> 380\<close> (as the
  defaults have), then after \<^verbatim>\<open>init()\<close> and any sequence of events in which every
  gesture is released while the panel is shown, the state has \<open>w \<ge> 300\<close> and
  \<open>h \<ge> 380\<close>, and the slot holds exactly that state; a storage that refuses writes
  keeps its first content.
\<close>

theorem saved_geometry_floors:
  assumes "floorsOk (loadState ls)"
    and "wd = run es (init (boot ls vw vh ch lay))"
    and "releasesShown es (init (boot ls vw vh ch lay))"
  shows "floorsOk (state wd)
     \<and> (setThrows ls \<longrightarrow> item (storage wd) = item ls)
     \<and> (\<not> setThrows ls \<longrightarrow>
          item (storage wd) = Decoded (toRecord (state wd))
          \<and> recordFloorsOk (toRecord (state wd)))"
proof -
  have "geometryOk ls wd"
    unfolding assms(2) using assms(1,3) by (intro geometryOk_run geometryOk_init)
  then show ?thesis
    by (simp add: geometryOk_def floorsOk_def recordFloorsOk_def toRecord_def)
qed

text \<open>
  From an empty storage: the panel is opened, a resize asks for less than the floors,
  a drag ends far outside the viewport, the panel is positioned and closed. The saved
  record is 300 by 380.
\<close>

theorem saved_geometry_floors_witness:
  "floorsOk (loadState emptyStorage)
   \<and> releasesShown demoEvents (init bootWidget)
   \<and> \<not> setThrows emptyStorage
   \<and> floorsOk (state (run demoEvents (init bootWidget)))
   \<and> item (storage (run demoEvents (init bootWidget))) =
       Decoded \<lparr>r_open = Some False, r_x = Some (Some 5), r_y = Some (Some 5),
                r_w = Some 300, r_h = Some 380\<rparr>"
proof -
  have l: "floorsOk (loadState emptyStorage)"
    by code_simp
  have r: "releasesShown demoEvents (init (boot emptyStorage 1280 800 400 demoLayout))"
    by code_simp
  have s: "\<not> setThrows emptyStorage"
    by (simp add: emptyStorage_def)
  have e: "toRecord (state (run demoEvents (init (boot emptyStorage 1280 800 400 demoLayout)))) =
       \<lparr>r_open = Some False, r_x = Some (Some 5), r_y = Some (Some 5),
        r_w = Some 300, r_h = Some 380\<rparr>"
    by code_simp
  from saved_geometry_floors [OF l refl r] s l r e show ?thesis
    by (simp add: bootWidget_def)
qed

text \<open>
  The claim as stated fails on a slot that holds \<^verbatim>\<open>{"w":100,"h":100}\<close>: the record is
  merged into the state, and \<^verbatim>\<open>init()\<close> saves it again with \<open>w = 100\<close> and \<open>h = 100\<close>.
\<close>

theorem load_unvalidated_counterexample:
  "item (storage (init (boot smallStorage 1280 800 400 demoLayout))) =
     Decoded \<lparr>r_open = Some False, r_x = Some None, r_y = Some None,
              r_w = Some 100, r_h = Some 100\<rparr>
   \<and> \<not> recordFloorsOk \<lparr>r_open = Some False, r_x = Some None, r_y = Some None,
                         r_w = Some 100, r_h = Some 100\<rparr>"
  by code_simp

text \<open>
  The side condition on the release is needed: closing the panel while the header is
  held makes the release measure a hidden panel, and the state saved is 0 by 0.
\<close>

lemma hidden_release_saves_zero:
  "st_w (state (run hiddenRelease demoWidget)) = 0
   \<and> st_h (state (run hiddenRelease demoWidget)) = 0
   \<and> \<not> releasesShown hiddenRelease demoWidget"
  by code_simp

section \<open>Save and load\<close>

text \<open>
  C6. On a storage that accepts the write and the read, loading after a save gives the
  state that was saved, whatever its geometry (in particular when \<open>w \<ge> 300\<close> and
  \<open>h \<ge> 380\<close>); so a widget started on the storage another has saved to starts with that
  state. When there is no item, when the item does not decode, or when the read throws,
  loading gives the defaults \<^verbatim>\<open>{open:false, x:null, y:null, w:360, h:520}\<close>. \<open>loadState\<close>
  is total: nothing is raised.
\<close>

theorem load_save_roundtrip:
  "(\<not> setThrows ls \<and> \<not> getThrows ls \<longrightarrow> loadState (setItem st ls) = st)
   \<and> (\<not> setThrows (storage wd) \<and> \<not> getThrows (storage wd) \<longrightarrow>
        state (boot (storage (saveState wd)) vw vh ch lay) = state wd)
   \<and> (item ls = NoItem \<or> item ls = Undecodable \<or> getThrows ls \<longrightarrow>
        loadState ls = \<lparr>st_open = False, st_x = None, st_y = None, st_w = 360, st_h = 520\<rparr>)"
  by (auto simp: loadState_def setItem_def saveState_def boot_def toRecord_def assign_def
      defaults_def)

theorem load_save_roundtrip_witness:
  "\<not> setThrows emptyStorage \<and> \<not> getThrows emptyStorage
   \<and> loadState (setItem \<lparr>st_open = True, st_x = Some 40, st_y = Some 60, st_w = 300, st_h = 380\<rparr>
                   emptyStorage) =
       \<lparr>st_open = True, st_x = Some 40, st_y = Some 60, st_w = 300, st_h = 380\<rparr>
   \<and> item emptyStorage = NoItem
   \<and> loadState emptyStorage =
       \<lparr>st_open = False, st_x = None, st_y = None, st_w = 360, st_h = 520\<rparr>"
  using load_save_roundtrip [of emptyStorage
      "\<lparr>st_open = True, st_x = Some 40, st_y = Some 60, st_w = 300, st_h = 380\<rparr>"]
  by (simp add: emptyStorage_def)

section \<open>Stick to bottom\<close>

text \<open>
  C7. After the user has scrolled the log to offset \<open>t\<close>, \<open>stickBottom\<close> is true exactly
  when \<open>t \<ge> scrollHeight - clientHeight - 4\<close>. An append (\<^verbatim>\<open>appendYou\<close>, \<^verbatim>\<open>appendBot\<close>,
  \<^verbatim>\<open>showTyping\<close>) leaves \<open>stickBottom\<close> as it is; it moves the log to its new bottom when
  \<open>stickBottom\<close> is true at that time, and leaves the scroll offset as it is when
  \<open>stickBottom\<close> is false.
\<close>

theorem stick_to_bottom:
  "scrollTop (userScroll t wd) = t
   \<and> stickBottom (userScroll t wd) = (t \<ge> scrollHeight wd - clientHeight wd - 4)
   \<and> stickBottom (appendYou s wd) = stickBottom wd
   \<and> stickBottom (appendBot h wd) = stickBottom wd
   \<and> stickBottom (snd (showTyping wd)) = stickBottom wd
   \<and> scrollTop (appendYou s wd) =
       (if stickBottom wd then max 0 (scrollHeight (appendYou s wd) - clientHeight wd)
        else scrollTop wd)
   \<and> scrollTop (appendBot h wd) =
       (if stickBottom wd then max 0 (scrollHeight (appendBot h wd) - clientHeight wd)
        else scrollTop wd)
   \<and> scrollTop (snd (showTyping wd)) =
       (if stickBottom wd then max 0 (scrollHeight (snd (showTyping wd)) - clientHeight wd)
        else scrollTop wd)"
  by (simp add: userScroll_def onLogScroll_def appendYou_def appendBot_def appendRow_def
      showTyping_def scrollToBottom_def scrollHeight_def Let_def)

section \<open>The public control surface\<close>

text \<open>
  C9. \<^verbatim>\<open>init()\<close> builds the panel and runs before the control surface is published, and
  nothing removes the panel: on every widget reached from \<^verbatim>\<open>init()\<close> by any sequence of
  events, opened before or not, the panel exists. There \<^verbatim>\<open>setPosition(x, y)\<close> sets the
  panel's left and top to the given coordinates, touches no drag or resize session, and
  saves the state with the new position; \<^verbatim>\<open>open()\<close> shows that panel and \<^verbatim>\<open>close()\<close>
  hides it. \<^verbatim>\<open>init()\<close> and \<^verbatim>\<open>open()\<close> build the panel when it does not exist yet.
\<close>

theorem setPosition_moves_and_persists:
  assumes "wd = run es (init wd0)"
  shows "\<exists>p. panel wd = Some p
     \<and> panel (setPosition px py wd) =
         Some (p\<lparr>s_left := Some px, s_top := Some py, s_rightAuto := True, s_bottomAuto := True\<rparr>)
     \<and> state (setPosition px py wd) = (state wd)\<lparr>st_x := Some px, st_y := Some py\<rparr>
     \<and> drag (setPosition px py wd) = drag wd
     \<and> resize (setPosition px py wd) = resize wd
     \<and> (\<not> setThrows (storage wd) \<longrightarrow>
          item (storage (setPosition px py wd)) =
            Decoded (toRecord ((state wd)\<lparr>st_x := Some px, st_y := Some py\<rparr>)))
     \<and> panel (openPanel wd) = Some (p\<lparr>s_display := DisplayFlex\<rparr>)
     \<and> panel (closePanel wd) = Some (p\<lparr>s_display := DisplayNone\<rparr>)
     \<and> panel (init wd1) \<noteq> None
     \<and> panel (openPanel wd1) \<noteq> None"
proof -
  have "panel wd \<noteq> None"
    unfolding assms by (intro panel_run panel_init)
  then obtain p where p: "panel wd = Some p"
    by blast
  show ?thesis
    by (intro exI [of _ p])
      (simp add: p setPosition_existing [OF p] openPanel_existing [OF p] closePanel_fields
        panel_init panel_openPanel setPosition_def)
qed

text \<open>
  After \<^verbatim>\<open>init()\<close> on an empty storage the panel exists, closed and never opened;
  \<^verbatim>\<open>setPosition(40, 60)\<close> moves it and saves the position.
\<close>

theorem setPosition_moves_and_persists_witness:
  "init bootWidget = run [] (init bootWidget)
   \<and> panel (init bootWidget) =
     Some \<lparr>s_left = None, s_top = None, s_rightAuto = False, s_bottomAuto = False,
           s_width = Some 360, s_height = Some 520, s_display = DisplayNone\<rparr>
   \<and> panel (setPosition 40 60 (init bootWidget)) =
     Some \<lparr>s_left = Some 40, s_top = Some 60, s_rightAuto = True, s_bottomAuto = True,
           s_width = Some 360, s_height = Some 520, s_display = DisplayNone\<rparr>
   \<and> state (setPosition 40 60 (init bootWidget)) =
     \<lparr>st_open = False, st_x = Some 40, st_y = Some 60, st_w = 360, st_h = 520\<rparr>
   \<and> \<not> setThrows (storage (init bootWidget))
   \<and> item (storage (setPosition 40 60 (init bootWidget))) =
     Decoded \<lparr>r_open = Some False, r_x = Some (Some 40), r_y = Some (Some 60),
              r_w = Some 360, r_h = Some 520\<rparr>
   \<and> panel (openPanel (init bootWidget)) =
     Some \<lparr>s_left = None, s_top = None, s_rightAuto = False, s_bottomAuto = False,
           s_width = Some 360, s_height = Some 520, s_display = DisplayFlex\<rparr>"
proof -
  have r: "init bootWidget = run [] (init bootWidget)"
    by simp
  have p: "panel (init bootWidget) =
     Some \<lparr>s_left = None, s_top = None, s_rightAuto = False, s_bottomAuto = False,
           s_width = Some 360, s_height = Some 520, s_display = DisplayNone\<rparr>"
    by code_simp
  have s: "state (init bootWidget) =
     \<lparr>st_open = False, st_x = None, st_y = None, st_w = 360, st_h = 520\<rparr>"
    by code_simp
  have t: "\<not> setThrows (storage (init bootWidget))"
    by code_simp
  from setPosition_moves_and_persists [OF r, of 40 60] obtain q where
    q: "panel (init bootWidget) = Some q"
      "panel (setPosition 40 60 (init bootWidget)) =
         Some (q\<lparr>s_left := Some 40, s_top := Some 60, s_rightAuto := True, s_bottomAuto := True\<rparr>)"
      "state (setPosition 40 60 (init bootWidget)) =
         (state (init bootWidget))\<lparr>st_x := Some 40, st_y := Some 60\<rparr>"
      "\<not> setThrows (storage (init bootWidget)) \<longrightarrow>
         item (storage (setPosition 40 60 (init bootWidget))) =
           Decoded (toRecord ((state (init bootWidget))\<lparr>st_x := Some 40, st_y := Some 60\<rparr>))"
      "panel (openPanel (init bootWidget)) = Some (q\<lparr>s_display := DisplayFlex\<rparr>)"
    by blast
  from q(1) p have e: "q = \<lparr>s_left = None, s_top = None, s_rightAuto = False, s_bottomAuto = False,
           s_width = Some 360, s_height = Some 520, s_display = DisplayNone\<rparr>"
    by simp
  from q(2-5) t show ?thesis
    unfolding e s by (simp add: r [symmetric] p toRecord_def)
qed

section \<open>The send cycle\<close>

text \<open>
  C1. A send cycle started on a widget whose trimmed input is not empty reaches the
  \<^verbatim>\<open>await\<close> with the send button disabled and the typing row in the transcript.
  Whatever the outcome of the network call (rejection, a response with any status and
  any body, parsable or not), and whatever has happened to the widget in between, the
  cycle ends with the typing row removed, the send button enabled and the input
  focused.
\<close>

theorem onSend_restores_idle:
  assumes "panel wd \<noteq> None" and "trim (inputValue wd) \<noteq> []"
  shows "\<exists>typing wd1.
           onSendStart wd = Inr (Some (trim (inputValue wd), typing, wd1))
           \<and> sendDisabled wd1
           \<and> typing \<in> rid ` set (rows wd1)
           \<and> (\<forall>oc. onSend oc wd = Inr (onSendSettle oc typing wd1))
           \<and> (\<forall>oc wd2. typing \<notin> rid ` set (rows (onSendSettle oc typing wd2))
                        \<and> \<not> sendDisabled (onSendSettle oc typing wd2)
                        \<and> inputFocused (onSendSettle oc typing wd2))"
proof (intro exI conjI allI)
  show "onSendStart wd = Inr (Some (trim (inputValue wd), Suc (nextId wd), awaiting wd))"
    using assms by (rule onSendStart_result)
  show "sendDisabled (awaiting wd)"
    by (rule awaiting_fields)
  show "Suc (nextId wd) \<in> rid ` set (rows (awaiting wd))"
    by (simp add: awaiting_fields)
  show "onSend oc wd = Inr (onSendSettle oc (Suc (nextId wd)) (awaiting wd))" for oc
    using assms by (rule onSend_result)
  show "Suc (nextId wd) \<notin> rid ` set (rows (onSendSettle oc (Suc (nextId wd)) wd2))" for oc wd2
    by (rule settle_idle)
  show "\<not> sendDisabled (onSendSettle oc (Suc (nextId wd)) wd2)" for oc wd2
    by (rule settle_idle)
  show "inputFocused (onSendSettle oc (Suc (nextId wd)) wd2)" for oc wd2
    by (rule settle_idle)
qed

text \<open>The opened widget with \<^verbatim>\<open>" hi "\<close> typed into the input sends \<^verbatim>\<open>"hi"\<close>.\<close>

theorem onSend_restores_idle_witness:
  "panel typedWidget \<noteq> None
   \<and> trim (inputValue typedWidget) = ''hi''
   \<and> (\<exists>typing wd1.
         onSendStart typedWidget = Inr (Some (''hi'', typing, wd1))
         \<and> sendDisabled wd1
         \<and> typing \<in> rid ` set (rows wd1)
         \<and> (\<forall>oc. onSend oc typedWidget = Inr (onSendSettle oc typing wd1))
         \<and> (\<forall>oc wd2. typing \<notin> rid ` set (rows (onSendSettle oc typing wd2))
                      \<and> \<not> sendDisabled (onSendSettle oc typing wd2)
                      \<and> inputFocused (onSendSettle oc typing wd2)))"
proof -
  have p: "panel typedWidget \<noteq> None"
    by code_simp
  have t: "trim (inputValue typedWidget) = ''hi''"
    by code_simp
  then have n: "trim (inputValue typedWidget) \<noteq> []"
    by simp
  from onSend_restores_idle [OF p n] p t show ?thesis
    by simp
qed























section \<open>Shape dispatch\<close>






section \<open>Escaping\<close>

text \<open>
  What \<^verbatim>\<open>escapeHtml\<close> returns holds none of \<^verbatim>\<open><\<close>, \<^verbatim>\<open>>\<close> and the two quotes, and
  \<^verbatim>\<open>appendYou\<close> puts the escaped text into the row.
\<close>

lemma escapeChar_safe:
  "set (escapeChar c) \<inter> {CHR ''<'', CHR ''>'', CHR 0x22, CHR 0x27} = {}"
  by (simp add: escapeChar_def)

lemma escapeText_safe:
  "set (escapeText s) \<inter> {CHR ''<'', CHR ''>'', CHR 0x22, CHR 0x27} = {}"
  using escapeChar_safe by (induction s) (auto simp: escapeText_def)

lemma appendYou_escapes:
  "innerHTML (last (rows (appendYou t wd))) = rowHtml ''you'' (newlinesToBr (escapeText t))"
  by (simp add: appendYou_def)

text \<open>
  C8 does not hold of the code. In shape 3 the \<^verbatim>\<open>qty\<close> of a book is interpolated
  through \<^verbatim>\<open>String\<close> only: a string \<^verbatim>\<open>qty\<close> reaches the markup as it is, where
  \<^verbatim>\<open>escapeHtml\<close> would have turned its angle brackets into entities.
\<close>

theorem bookLine_qty_unescaped:
  "renderBotHtml qtyPayload =
     Inr (''ok<div style='' @ [CHR 0x27] @ ''margin-top:6px'' @ [CHR 0x27] @ ''>''
          @ bulletOpen @ ''T</b>'' @ dash @ ''A'' @ qtyOpen
          @ ''<img src=x onerror=alert(1)>'' @ '')</div>'')
   \<and> escapeText ''<img src=x onerror=alert(1)>'' = ''&lt;img src=x onerror=alert(1)&gt;''"
  by code_simp

text \<open>
  A recommendation without title renders the word \<^verbatim>\<open>undefined\<close>; a \<^verbatim>\<open>null\<close> item, or
  bullets that are no array, make \<^verbatim>\<open>renderBot\<close> throw.
\<close>

lemma missing_title_renders_undefined:
  "renderBotHtml (JObj [(''recommendations'', JArr [JObj [(''author'', JStr ''X'')]])]) =
     Inr (''<ul><li><b>undefined</b>'' @ dash @ ''X<br><i></i></li></ul>'')"
  by code_simp

lemma null_item_throws:
  "renderBotHtml (JObj [(''recommendations'', JArr [JNull])]) = Inl TypeError"
  "renderBotHtml (JObj [(''summary'', JObj [(''bullets'', JStr ''abc'')])]) = Inl TypeError"
  by code_simp+

end
